theory Spec2Isabelle
  imports Main
begin

section \<open>The question-answering page of \<^verbatim>\<open>streamlit_app.py\<close>\<close>

text \<open>
  The program is one script that the host framework runs from top to bottom on every
  user interaction. It reads a secret, builds an embeddings client, a Chroma vector
  store (cached across runs), a retriever, a chat model and a retrieval chain, renders
  a text input and, for a non-empty query, calls the chain and shows what it returns.

  The embedding makes the effects of one run explicit. A run yields
  \<^item> the list of events it caused, in order: the widgets it rendered and the calls it
    made into the libraries (a call is recorded whether it returns or raises);
  \<^item> how it ended: it ran to its last line, it called \<^verbatim>\<open>st.stop()\<close>, or an
    exception left the script uncaught;
  \<^item> the cache of \<^verbatim>\<open>@st.cache_resource\<close> after the run.
  What the libraries and the hosted services do is not in the repository: whether a
  constructor raises, and what the chain answers, are read from a \<open>world\<close> record.
\<close>

subsection \<open>Exceptions\<close>

text \<open>
  An exception object, as far as the script's handlers tell exceptions apart: a
  \<^verbatim>\<open>KeyError\<close> (the only class named in a handler, line 26), a
  \<^verbatim>\<open>FileNotFoundError\<close> (what a lookup in \<^verbatim>\<open>st.secrets\<close> raises when there is no
  secrets file: the framework's \<^verbatim>\<open>StreamlitSecretNotFoundError\<close> is one) or an instance
  of any other subclass of \<^verbatim>\<open>Exception\<close>. The string is the text \<^verbatim>\<open>str(e)\<close>
  gives. Signals that derive from \<^verbatim>\<open>BaseException\<close> only (a keyboard interrupt, the
  framework's own stop signal) are not exceptions in this sense; \<^verbatim>\<open>except Exception\<close>
  does not catch them.
\<close>

datatype exc = KeyError string | FileNotFoundError string | Exception string

fun str_exc :: "exc \<Rightarrow> string" where
  "str_exc (KeyError m) = m"
| "str_exc (FileNotFoundError m) = m"
| "str_exc (Exception m) = m"

text \<open>How a statement ends: with a value, by \<^verbatim>\<open>st.stop()\<close>, or by an uncaught exception.\<close>

datatype 'a flow = Next 'a | Stop | Raise exc

subsection \<open>The objects the script builds\<close>

text \<open>
  A client object is modelled by the arguments the script constructs it from; nothing
  else about it is visible in the repository.
\<close>

record embeddings =
  emb_model :: string
  emb_google_api_key :: string

record chroma =
  persist_directory :: string
  embedding_function :: embeddings

record retriever =
  vectorstore :: chroma
  search_type :: string
  search_kwargs :: "(string \<times> int) list"

record chat_model =
  llm_api_key :: string
  llm_model :: string

record qa_chain =
  chain_llm :: chat_model
  chain_type :: string
  chain_retriever :: retriever
  return_source_documents :: bool

text \<open>A retrieved chunk and the chain's response (the keys the script reads).\<close>

record document =
  page_content :: string
  metadata :: "(string \<times> string) list"

record response =
  result :: string
  source_documents :: "document list"

subsection \<open>Events of a run\<close>

datatype ext_call =
    NewEmbeddings embeddings
  | NewChroma chroma
  | AsRetriever retriever
  | NewChatModel chat_model
  | FromChainType qa_chain
  | Invoke qa_chain "(string \<times> string) list"

datatype event =
    SetPageConfig string string string
  | Title string
  | Markdown string
  | Header string
  | Subheader string
  | ErrorBox string
  | Write string
  | TextInput string string
  | Spinner string "event list"
  | Expander string "event list"
  | Sidebar "event list"
  | Call ext_call

text \<open>The library calls of a trace, in order, also those made inside a block.\<close>

fun calls_of :: "event \<Rightarrow> ext_call list" where
  "calls_of (Call c) = [c]"
| "calls_of (Spinner msg evs) = concat (map calls_of evs)"
| "calls_of (Expander label evs) = concat (map calls_of evs)"
| "calls_of (Sidebar evs) = concat (map calls_of evs)"
| "calls_of ev = []"

definition trace_calls :: "event list \<Rightarrow> ext_call list" where
  "trace_calls evs = concat (map calls_of evs)"

fun is_Invoke :: "ext_call \<Rightarrow> bool" where
  "is_Invoke (Invoke c inputs) = True"
| "is_Invoke other = False"

text \<open>The error banners of a trace (\<^verbatim>\<open>st.error\<close>), also those inside a block.\<close>

fun errors_of :: "event \<Rightarrow> string list" where
  "errors_of (ErrorBox m) = [m]"
| "errors_of (Spinner msg evs) = concat (map errors_of evs)"
| "errors_of (Expander label evs) = concat (map errors_of evs)"
| "errors_of (Sidebar evs) = concat (map errors_of evs)"
| "errors_of ev = []"

definition trace_errors :: "event list \<Rightarrow> string list" where
  "trace_errors evs = concat (map errors_of evs)"

text \<open>The collapsible sections of a trace (\<^verbatim>\<open>st.expander\<close>), also nested ones.\<close>

fun expanders_of :: "event \<Rightarrow> event list" where
  "expanders_of (Expander label evs) = Expander label evs # concat (map expanders_of evs)"
| "expanders_of (Spinner msg evs) = concat (map expanders_of evs)"
| "expanders_of (Sidebar evs) = concat (map expanders_of evs)"
| "expanders_of ev = []"

definition trace_expanders :: "event list \<Rightarrow> event list" where
  "trace_expanders evs = concat (map expanders_of evs)"

text \<open>What the page shows: the trace without the library calls.\<close>

fun ui_of :: "event \<Rightarrow> event list" where
  "ui_of (Call c) = []"
| "ui_of (Spinner msg evs) = [Spinner msg (concat (map ui_of evs))]"
| "ui_of (Expander label evs) = [Expander label (concat (map ui_of evs))]"
| "ui_of (Sidebar evs) = [Sidebar (concat (map ui_of evs))]"
| "ui_of ev = [ev]"

definition trace_ui :: "event list \<Rightarrow> event list" where
  "trace_ui evs = concat (map ui_of evs)"

subsection \<open>The world outside the script\<close>

text \<open>
  \<open>secrets\<close> is the platform's secret store: \<open>Inr entries\<close> when a secrets file is
  found, with the entries it holds, and \<open>Inl msg\<close> when none is found, \<open>msg\<close> being the
  text of the exception every lookup then raises. For each library call the world says
  whether it raises (\<open>None\<close>: it returns). \<open>qa_call\<close> is the retrieval chain's answer
  to an input, or the exception it raises. \<open>py_str\<close> is Python's \<^verbatim>\<open>str\<close> on a
  metadata dict.
\<close>

record world =
  secrets :: "string + (string \<rightharpoonup> string)"
  embeddings_ctor :: "embeddings \<Rightarrow> exc option"
  chroma_ctor :: "chroma \<Rightarrow> exc option"
  as_retriever_call :: "retriever \<Rightarrow> exc option"
  chat_ctor :: "chat_model \<Rightarrow> exc option"
  from_chain_type_call :: "qa_chain \<Rightarrow> exc option"
  qa_call :: "qa_chain \<Rightarrow> (string \<times> string) list \<Rightarrow> exc + response"
  py_str :: "(string \<times> string) list \<Rightarrow> string"

subsection \<open>Sequencing\<close>

text \<open>
  A piece of the script takes the resource cache and returns its events, how it ended
  and the cache. \<open>and_then\<close> is the semicolon: what follows runs only after a piece
  that ended with a value.
\<close>

type_synonym 'a script = "chroma option \<Rightarrow> event list \<times> 'a flow \<times> chroma option"

definition and_then :: "'a script \<Rightarrow> ('a \<Rightarrow> 'b script) \<Rightarrow> 'b script" where
  "and_then m f = (\<lambda>c.
     case m c of
       (evs, Next x, c') \<Rightarrow> (case f x c' of (evs', r, c'') \<Rightarrow> (evs @ evs', r, c''))
     | (evs, Stop, c') \<Rightarrow> (evs, Stop, c')
     | (evs, Raise e, c') \<Rightarrow> (evs, Raise e, c'))"

definition render :: "event list \<Rightarrow> unit script" where
  "render evs = (\<lambda>c. (evs, Next (), c))"

subsection \<open>The fixed texts of the page\<close>

definition page_icon :: string where
  \<comment> \<open>U+1F331, as its UTF-8 bytes\<close>
  "page_icon = [CHR 0xF0, CHR 0x9F, CHR 0x8C, CHR 0xB1]"

definition title_text :: string where
  \<comment> \<open>U+1F33F, then the title\<close>
  "title_text = [CHR 0xF0, CHR 0x9F, CHR 0x8C, CHR 0xBF] @ '' ITC Sustainability Q&A App''"

definition intro_text :: string where
  "intro_text =
     [CHR 0x0A] @ ''Ask questions about ITC's sustainability efforts in 2024. '' @
     [CHR 0x0A] @ ''This app uses a pre-loaded Chroma vector store and Google's Gemini model to provide accurate answers.'' @
     [CHR 0x0A]"

definition about_text :: string where
  "about_text =
     [CHR 0x0A] @ ''    This app is built using:'' @
     [CHR 0x0A] @ ''    - **Streamlit** for the web interface'' @
     [CHR 0x0A] @ ''    - **LangChain** for retrieval-augmented generation'' @
     [CHR 0x0A] @ ''    - **Google Gemini** for language modeling'' @
     [CHR 0x0A] @ ''    - **Chroma** for vector storage'' @
     [CHR 0x0A] @ ''    '' @
     [CHR 0x0A] @ ''    The Chroma database is located in the `chroma_db` directory at the root of this Space.'' @
     [CHR 0x0A] @ ''    It includes files like `chroma.sqlite3`, `data_level0.bin`, and others required for vector storage.'' @
     [CHR 0x0A] @ ''    '' @
     [CHR 0x0A] @ ''    The Google API key is securely accessed via Streamlit secrets.'' @
     [CHR 0x0A] @ ''    ''"

definition instructions_text :: string where
  "instructions_text =
     [CHR 0x0A] @ ''    1. Enter a question about ITC's sustainability efforts in 2024.'' @
     [CHR 0x0A] @ ''    2. Wait for the app to process and display the answer.'' @
     [CHR 0x0A] @ ''    3. Check the sources for document metadata and content previews.'' @
     [CHR 0x0A] @ ''    ''"

definition footer_text :: string where
  \<comment> \<open>U+2764 U+FE0F between the words, as UTF-8 bytes\<close>
  "footer_text = ''Built with '' @ [CHR 0xE2, CHR 0x9D, CHR 0xA4, CHR 0xEF, CHR 0xB8, CHR 0x8F] @
     '' using Streamlit | Powered by xAI''"

definition api_key_missing_text :: string where
  "api_key_missing_text =
     ''Google API key not found in Streamlit secrets. Please add 'GOOGLE_API_KEY' in the Space's secrets settings.''"

definition chroma_hint_text :: string where
  "chroma_hint_text =
     ''Ensure the 'chroma_db' directory contains all necessary files (chroma.sqlite3, data_level0.bin, etc.).''"

subsection \<open>The script, top to bottom\<close>

text \<open>Lines 10 to 21: page configuration, title and description.\<close>

definition page_header :: "event list" where
  "page_header =
     [SetPageConfig ''ITC Sustainability Q&A'' page_icon ''wide'',
      Title title_text,
      Markdown intro_text]"

text \<open>
  \<^verbatim>\<open>st.secrets["GOOGLE_API_KEY"]\<close>. With no secrets file the lookup raises the
  framework's \<^verbatim>\<open>StreamlitSecretNotFoundError\<close>, a \<^verbatim>\<open>FileNotFoundError\<close> and not a
  \<^verbatim>\<open>KeyError\<close>; with a file that lacks the key it raises \<^verbatim>\<open>KeyError\<close>. The handler
  at line 26 does not bind the exception, so the text of the \<^verbatim>\<open>KeyError\<close> is never read.
\<close>

definition secrets_getitem :: "world \<Rightarrow> string \<Rightarrow> exc + string" where
  "secrets_getitem w k =
     (case secrets w of
        Inl msg \<Rightarrow> Inl (FileNotFoundError msg)
      | Inr entries \<Rightarrow> (case entries k of None \<Rightarrow> Inl (KeyError k) | Some v \<Rightarrow> Inr v))"

text \<open>Lines 24 to 28: the handler names \<^verbatim>\<open>KeyError\<close> only; any other exception leaves the script.\<close>

definition load_api_key :: "world \<Rightarrow> string script" where
  "load_api_key w = (\<lambda>c.
     case secrets_getitem w ''GOOGLE_API_KEY'' of
       Inr v \<Rightarrow> ([], Next v, c)
     | Inl (KeyError m) \<Rightarrow> ([ErrorBox api_key_missing_text], Stop, c)
     | Inl e \<Rightarrow> ([], Raise e, c))"

text \<open>Lines 31 to 38.\<close>

definition init_embeddings :: "world \<Rightarrow> string \<Rightarrow> embeddings script" where
  "init_embeddings w API_KEY = (\<lambda>c.
     let args = \<lparr>emb_model = ''models/embedding-001'', emb_google_api_key = API_KEY\<rparr> in
     case embeddings_ctor w args of
       None \<Rightarrow> ([Call (NewEmbeddings args)], Next args, c)
     | Some e \<Rightarrow>
         ([Call (NewEmbeddings args),
           ErrorBox (''Failed to initialize embeddings: '' @ str_exc e)], Stop, c))"

text \<open>
  Lines 41 to 53. The function is decorated with \<^verbatim>\<open>@st.cache_resource\<close>: a value
  it returned before is returned again without running the body; a run of the body
  that does not return stores nothing.
\<close>

definition load_vector_store :: "world \<Rightarrow> embeddings \<Rightarrow> chroma script" where
  "load_vector_store w embeddings = (\<lambda>c.
     case c of
       Some cached \<Rightarrow> ([], Next cached, c)
     | None \<Rightarrow>
         (let args = \<lparr>persist_directory = ''./chroma_db'', embedding_function = embeddings\<rparr> in
          case chroma_ctor w args of
            None \<Rightarrow> ([Call (NewChroma args)], Next args, Some args)
          | Some e \<Rightarrow>
              ([Call (NewChroma args),
                ErrorBox (''Failed to load Chroma vector store: '' @ str_exc e),
                Write chroma_hint_text], Stop, None)))"

text \<open>Lines 56 to 59: no handler around the call.\<close>

definition init_retriever :: "world \<Rightarrow> chroma \<Rightarrow> retriever script" where
  "init_retriever w vector_store = (\<lambda>c.
     let args = \<lparr>vectorstore = vector_store, search_type = ''mmr'',
                 search_kwargs = [(''k'', 3), (''lambda_mult'', 1)]\<rparr> in
     case as_retriever_call w args of
       None \<Rightarrow> ([Call (AsRetriever args)], Next args, c)
     | Some e \<Rightarrow> ([Call (AsRetriever args)], Raise e, c))"

text \<open>Lines 62 to 65: no handler around the constructor.\<close>

definition init_llm :: "world \<Rightarrow> string \<Rightarrow> chat_model script" where
  "init_llm w API_KEY = (\<lambda>c.
     let args = \<lparr>llm_api_key = API_KEY, llm_model = ''gemini-2.0-flash-exp''\<rparr> in
     case chat_ctor w args of
       None \<Rightarrow> ([Call (NewChatModel args)], Next args, c)
     | Some e \<Rightarrow> ([Call (NewChatModel args)], Raise e, c))"

text \<open>Lines 68 to 73: no handler around the call.\<close>

definition init_qa_chain :: "world \<Rightarrow> chat_model \<Rightarrow> retriever \<Rightarrow> qa_chain script" where
  "init_qa_chain w llm retriever = (\<lambda>c.
     let args = \<lparr>chain_llm = llm, chain_type = ''stuff'', chain_retriever = retriever,
                 return_source_documents = True\<rparr> in
     case from_chain_type_call w args of
       None \<Rightarrow> ([Call (FromChainType args)], Next args, c)
     | Some e \<Rightarrow> ([Call (FromChainType args)], Raise e, c))"

text \<open>Lines 24 to 73 in sequence.\<close>

definition initialize :: "world \<Rightarrow> qa_chain script" where
  "initialize w =
     and_then (load_api_key w) (\<lambda>API_KEY.
     and_then (init_embeddings w API_KEY) (\<lambda>embeddings.
     and_then (load_vector_store w embeddings) (\<lambda>vector_store.
     and_then (init_retriever w vector_store) (\<lambda>retriever.
     and_then (init_llm w API_KEY) (\<lambda>llm.
     init_qa_chain w llm retriever)))))"

text \<open>Lines 76 to 79. The widget returns the text the user entered, \<open>query\<close>.\<close>

definition query_input :: event where
  "query_input =
     TextInput ''Enter your question about ITC's sustainability efforts in 2024:''
       ''E.g., Summarize ITC's sustainability efforts in 2024''"

text \<open>Lines 95 to 97: one retrieved chunk. The slice \<^verbatim>\<open>[:200]\<close> is \<open>take 200\<close>.\<close>

definition show_source :: "world \<Rightarrow> document \<Rightarrow> event" where
  "show_source w doc =
     Expander ''Source Document''
       [Write (''**Metadata**: '' @ py_str w (metadata doc)),
        Write (''**Content Preview**: '' @ take 200 (page_content doc) @ ''...'')]"

text \<open>
  Lines 82 to 103. A string is true in Python when it is not empty, and so is a list.
  The handler catches every \<^verbatim>\<open>Exception\<close>, inside the spinner block.
\<close>

definition process_query :: "world \<Rightarrow> qa_chain \<Rightarrow> string \<Rightarrow> event list" where
  "process_query w chain query =
     (if query \<noteq> [] then
        [Spinner ''Generating response...''
           (Call (Invoke chain [(''query'', query)]) #
            (case qa_call w chain [(''query'', query)] of
               Inr response \<Rightarrow>
                 [Subheader ''Answer'',
                  Write (result response),
                  Subheader ''Sources''] @
                 (if source_documents response \<noteq> []
                  then map (show_source w) (source_documents response)
                  else [Write ''No source documents found.''])
             | Inl e \<Rightarrow>
                 [ErrorBox (''An error occurred while processing the query: '' @ str_exc e),
                  Write ''Please try again or check the Chroma database and API key.'']))]
      else [])"

text \<open>Lines 106 to 130: sidebar and footer.\<close>

definition page_footer :: "event list" where
  "page_footer =
     [Sidebar [Header ''About'', Markdown about_text,
               Header ''Instructions'', Markdown instructions_text],
      Markdown ''---'',
      Markdown footer_text]"

text \<open>One run of the whole script, given what the text input returns in this run.\<close>

definition run_script :: "world \<Rightarrow> string \<Rightarrow> unit script" where
  "run_script w query =
     and_then (render page_header) (\<lambda>u.
     and_then (initialize w) (\<lambda>chain.
     and_then (render [query_input]) (\<lambda>u.
     and_then (render (process_query w chain query)) (\<lambda>u.
     render page_footer))))"

subsection \<open>Concrete worlds\<close>

text \<open>
  A world in which every library call returns. The chain raises for the query
  \<open>boom\<close>, finds no chunk for the query \<open>none\<close>, and otherwise answers \<open>A\<close> with
  two chunks: a short one, and one of 250 characters.
\<close>

definition demo_docs :: "document list" where
  "demo_docs =
     [\<lparr>page_content = ''doc1 text'', metadata = [(''page'', ''1'')]\<rparr>,
      \<lparr>page_content = replicate 250 CHR ''x'', metadata = []\<rparr>]"

definition demo_world :: world where
  "demo_world =
     \<lparr>secrets = Inr [''GOOGLE_API_KEY'' \<mapsto> ''secret''],
      embeddings_ctor = (\<lambda>a. None),
      chroma_ctor = (\<lambda>a. None),
      as_retriever_call = (\<lambda>a. None),
      chat_ctor = (\<lambda>a. None),
      from_chain_type_call = (\<lambda>a. None),
      qa_call = (\<lambda>chain inputs.
         if inputs = [(''query'', ''boom'')] then Inl (Exception ''timeout'')
         else Inr \<lparr>result = ''A'',
                   source_documents =
                     (if inputs = [(''query'', ''none'')] then [] else demo_docs)\<rparr>),
      py_str = (\<lambda>m. concat (map (\<lambda>(k, v). k @ ''='' @ v) m))\<rparr>"

text \<open>
  The chain the script builds in that world, and the calls it makes on the way.
\<close>

definition demo_chain :: qa_chain where
  "demo_chain =
     \<lparr>chain_llm = \<lparr>llm_api_key = ''secret'', llm_model = ''gemini-2.0-flash-exp''\<rparr>,
      chain_type = ''stuff'',
      chain_retriever =
        \<lparr>vectorstore =
           \<lparr>persist_directory = ''./chroma_db'',
            embedding_function =
              \<lparr>emb_model = ''models/embedding-001'', emb_google_api_key = ''secret''\<rparr>\<rparr>,
         search_type = ''mmr'',
         search_kwargs = [(''k'', 3), (''lambda_mult'', 1)]\<rparr>,
      return_source_documents = True\<rparr>"

definition demo_init_events :: "event list" where
  "demo_init_events =
     [Call (NewEmbeddings (embedding_function (vectorstore (chain_retriever demo_chain)))),
      Call (NewChroma (vectorstore (chain_retriever demo_chain))),
      Call (AsRetriever (chain_retriever demo_chain)),
      Call (NewChatModel (chain_llm demo_chain)),
      Call (FromChainType demo_chain)]"


definition bad_llm_world :: world where
  "bad_llm_world = demo_world\<lparr>chat_ctor := (\<lambda>a. Some (Exception ''invalid key''))\<rparr>"

section \<open>Properties\<close>

subsection \<open>Sequencing and traces\<close>

lemma and_then_Next:
  "m c = (evs, Next x, c') \<Longrightarrow>
   and_then m f c = (case f x c' of (evs', r, c'') \<Rightarrow> (evs @ evs', r, c''))"
  by (simp add: and_then_def)

lemma and_then_Stop: "m c = (evs, Stop, c') \<Longrightarrow> and_then m f c = (evs, Stop, c')"
  by (simp add: and_then_def)

lemma and_then_Raise: "m c = (evs, Raise e, c') \<Longrightarrow> and_then m f c = (evs, Raise e, c')"
  by (simp add: and_then_def)

lemma and_then_render: "and_then (render evs) f c = (case f () c of (evs', r, c') \<Rightarrow> (evs @ evs', r, c'))"
  by (simp add: and_then_def render_def)

text \<open>
  A run, by how the initialization ended: only an initialization that yields the chain
  lets the script reach the text input.
\<close>

lemma run_script_initialized:
  "initialize w c = (evs, Next chain, c') \<Longrightarrow>
   run_script w query c =
     (page_header @ evs @ [query_input] @ process_query w chain query @ page_footer, Next (), c')"
  by (simp add: run_script_def and_then_render and_then_Next render_def)

lemma run_script_Stop:
  "initialize w c = (evs, Stop, c') \<Longrightarrow> run_script w query c = (page_header @ evs, Stop, c')"
  by (simp add: run_script_def and_then_render and_then_Stop)

lemma run_script_Raise:
  "initialize w c = (evs, Raise e, c') \<Longrightarrow> run_script w query c = (page_header @ evs, Raise e, c')"
  by (simp add: run_script_def and_then_render and_then_Raise)

lemma trace_calls_append: "trace_calls (xs @ ys) = trace_calls xs @ trace_calls ys"
  by (simp add: trace_calls_def)

lemma trace_ui_append: "trace_ui (xs @ ys) = trace_ui xs @ trace_ui ys"
  by (simp add: trace_ui_def)

lemma trace_errors_append: "trace_errors (xs @ ys) = trace_errors xs @ trace_errors ys"
  by (simp add: trace_errors_def)

lemma trace_expanders_append: "trace_expanders (xs @ ys) = trace_expanders xs @ trace_expanders ys"
  by (simp add: trace_expanders_def)

lemma trace_Nil:
  "trace_calls [] = []" "trace_ui [] = []" "trace_errors [] = []" "trace_expanders [] = []"
  by (simp_all add: trace_calls_def trace_ui_def trace_errors_def trace_expanders_def)

lemma trace_Cons:
  "trace_calls (ev # evs) = calls_of ev @ trace_calls evs"
  "trace_ui (ev # evs) = ui_of ev @ trace_ui evs"
  "trace_errors (ev # evs) = errors_of ev @ trace_errors evs"
  "trace_expanders (ev # evs) = expanders_of ev @ trace_expanders evs"
  by (simp_all add: trace_calls_def trace_ui_def trace_errors_def trace_expanders_def)

lemma header_plain:
  "trace_calls page_header = []" "trace_ui page_header = page_header"
  "trace_errors page_header = []" "trace_expanders page_header = []"
  by (simp_all add: page_header_def trace_calls_def trace_ui_def trace_errors_def trace_expanders_def)

lemma footer_plain:
  "trace_calls page_footer = []" "trace_ui page_footer = page_footer"
  "trace_errors page_footer = []" "trace_expanders page_footer = []"
  by (simp_all add: page_footer_def trace_calls_def trace_ui_def trace_errors_def trace_expanders_def)

lemma input_plain:
  "calls_of query_input = []" "ui_of query_input = [query_input]"
  "errors_of query_input = []" "expanders_of query_input = []"
  by (simp_all add: query_input_def)

lemma calls_plain:
  "trace_calls (map Call cs) = cs" "trace_ui (map Call cs) = []"
  "trace_errors (map Call cs) = []" "trace_expanders (map Call cs) = []"
  by (induction cs) (simp_all add: trace_calls_def trace_ui_def trace_errors_def trace_expanders_def)

lemma sources_plain:
  "trace_calls (map (show_source w) docs) = []"
  "trace_errors (map (show_source w) docs) = []"
  by (induction docs) (simp_all add: trace_calls_def trace_errors_def show_source_def)

lemma sources_expanders:
  "trace_expanders (map (show_source w) docs) = map (show_source w) docs"
  by (induction docs) (simp_all add: trace_expanders_def show_source_def)

subsection \<open>Initialization\<close>

lemmas step_defs = load_api_key_def init_embeddings_def
  load_vector_store_def init_retriever_def init_llm_def init_qa_chain_def

text \<open>
  An initialization that yields the chain shows nothing: its events are library calls,
  none of them a call of the chain, and the chain's retriever is configured as in
  lines 56 to 59.
\<close>

lemma initialize_Next:
  assumes "initialize w c = (evs, Next chain, c')"
  shows "evs = map Call (trace_calls evs)"
    and "filter is_Invoke (trace_calls evs) = []"
    and "search_type (chain_retriever chain) = ''mmr''"
    and "search_kwargs (chain_retriever chain) = [(''k'', 3), (''lambda_mult'', 1)]"
  using assms
  by (auto simp: initialize_def and_then_def step_defs Let_def trace_calls_def
      split: option.splits sum.splits exc.splits prod.splits flow.splits)

lemma init_events_plain:
  assumes "initialize w c = (evs, Next chain, c')"
  shows "trace_ui evs = []" "trace_errors evs = []" "trace_expanders evs = []"
  using initialize_Next(1) [OF assms] calls_plain(2,3,4) [of "trace_calls evs"] by simp_all

text \<open>
  However the initialization ends, it does not call the chain.
\<close>

lemma initialize_calls:
  assumes "initialize w c = (evs, r, c')"
  shows "filter is_Invoke (trace_calls evs) = []"
    and "AsRetriever rt \<in> set (trace_calls evs) \<Longrightarrow>
         search_type rt = ''mmr'' \<and> search_kwargs rt = [(''k'', 3), (''lambda_mult'', 1)]"
  using assms
  by (auto simp: initialize_def and_then_def step_defs Let_def trace_calls_def
      split: option.splits sum.splits exc.splits prod.splits flow.splits)

lemma demo_initialize:
  "initialize demo_world None =
     (demo_init_events, Next demo_chain, Some (vectorstore (chain_retriever demo_chain)))"
  by (simp add: initialize_def and_then_def step_defs secrets_getitem_def demo_world_def
      demo_chain_def demo_init_events_def Let_def)

subsection \<open>The library calls of a run\<close>

lemma process_query_calls:
  "trace_calls (process_query w chain query) =
     (if query = [] then [] else [Invoke chain [(''query'', query)]])"
proof (cases "qa_call w chain [(''query'', query)]")
  case (Inl e)
  then show ?thesis by (simp add: process_query_def trace_calls_def)
next
  case (Inr r)
  have "concat (map calls_of (map (show_source w) (source_documents r))) = []"
    using sources_plain(1) [of w "source_documents r"] by (simp add: trace_calls_def)
  with Inr show ?thesis by (simp add: process_query_def trace_calls_def)
qed

lemma run_script_calls:
  assumes "initialize w c = (evs, r, c')"
  shows "trace_calls (fst (run_script w query c)) =
           trace_calls evs @
           (case r of
              Next chain \<Rightarrow> if query = [] then [] else [Invoke chain [(''query'', query)]]
            | Stop \<Rightarrow> []
            | Raise e \<Rightarrow> [])"
proof (cases r)
  case (Next chain)
  with assms show ?thesis
    by (simp add: run_script_initialized trace_calls_append trace_Cons header_plain
        footer_plain input_plain process_query_calls)
next
  case Stop
  with assms show ?thesis
    by (simp add: run_script_Stop trace_calls_append header_plain)
next
  case (Raise e)
  with assms show ?thesis
    by (simp add: run_script_Raise trace_calls_append header_plain)
qed

lemma not_in_filtered:
  "filter is_Invoke cs = [] \<Longrightarrow> Invoke chain inputs \<notin> set cs"
  by (auto simp: filter_empty_conv)

lemma demo_calls:
  "trace_calls (fst (run_script demo_world ''q'' None)) =
     [NewEmbeddings (embedding_function (vectorstore (chain_retriever demo_chain))),
      NewChroma (vectorstore (chain_retriever demo_chain)),
      AsRetriever (chain_retriever demo_chain),
      NewChatModel (chain_llm demo_chain),
      FromChainType demo_chain,
      Invoke demo_chain [(''query'', ''q'')]]"
  using run_script_calls [OF demo_initialize, of "''q''"]
  by (simp add: demo_init_events_def trace_Cons trace_Nil)

section \<open>The claims\<close>

subsection \<open>Failures during initialization\<close>

text \<open>
  The embeddings constructor and the Chroma constructor are called inside a handler
  (lines 31 to 38, 43 to 51): when one raises, the run shows an error banner with the
  exception's text and stops.
\<close>

lemma embeddings_failure_halts:
  assumes "secrets_getitem w ''GOOGLE_API_KEY'' = Inr k"
    and "embeddings_ctor w \<lparr>emb_model = ''models/embedding-001'', emb_google_api_key = k\<rparr> = Some e"
  shows "run_script w query c =
    (page_header @
     [Call (NewEmbeddings \<lparr>emb_model = ''models/embedding-001'', emb_google_api_key = k\<rparr>),
      ErrorBox (''Failed to initialize embeddings: '' @ str_exc e)], Stop, c)"
proof -
  have "initialize w c =
    ([Call (NewEmbeddings \<lparr>emb_model = ''models/embedding-001'', emb_google_api_key = k\<rparr>),
      ErrorBox (''Failed to initialize embeddings: '' @ str_exc e)], Stop, c)"
    using assms by (simp add: initialize_def and_then_def step_defs Let_def)
  then show ?thesis by (rule run_script_Stop)
qed

lemma chroma_failure_halts:
  assumes "secrets_getitem w ''GOOGLE_API_KEY'' = Inr k"
    and "emb = \<lparr>emb_model = ''models/embedding-001'', emb_google_api_key = k\<rparr>"
    and "embeddings_ctor w emb = None"
    and "chroma_ctor w \<lparr>persist_directory = ''./chroma_db'', embedding_function = emb\<rparr> = Some e"
  shows "run_script w query None =
    (page_header @
     [Call (NewEmbeddings emb),
      Call (NewChroma \<lparr>persist_directory = ''./chroma_db'', embedding_function = emb\<rparr>),
      ErrorBox (''Failed to load Chroma vector store: '' @ str_exc e),
      Write chroma_hint_text], Stop, None)"
proof -
  have "initialize w None =
    ([Call (NewEmbeddings emb),
      Call (NewChroma \<lparr>persist_directory = ''./chroma_db'', embedding_function = emb\<rparr>),
      ErrorBox (''Failed to load Chroma vector store: '' @ str_exc e),
      Write chroma_hint_text], Stop, None)"
    using assms by (simp add: initialize_def and_then_def step_defs Let_def)
  then show ?thesis by (rule run_script_Stop)
qed

text \<open>
  The chat-model constructor is called with no handler around it (lines 62 to 65):
  when it raises, the exception leaves the script; the script shows no banner and does
  not call \<^verbatim>\<open>st.stop()\<close>.
\<close>

lemma chat_model_failure_raises:
  assumes "secrets_getitem w ''GOOGLE_API_KEY'' = Inr k"
    and "emb = \<lparr>emb_model = ''models/embedding-001'', emb_google_api_key = k\<rparr>"
    and "vs = \<lparr>persist_directory = ''./chroma_db'', embedding_function = emb\<rparr>"
    and "rt = \<lparr>vectorstore = vs, search_type = ''mmr'',
                search_kwargs = [(''k'', 3), (''lambda_mult'', 1)]\<rparr>"
    and "embeddings_ctor w emb = None"
    and "chroma_ctor w vs = None"
    and "as_retriever_call w rt = None"
    and "chat_ctor w \<lparr>llm_api_key = k, llm_model = ''gemini-2.0-flash-exp''\<rparr> = Some e"
  shows "run_script w query None =
    (page_header @
     [Call (NewEmbeddings emb), Call (NewChroma vs), Call (AsRetriever rt),
      Call (NewChatModel \<lparr>llm_api_key = k, llm_model = ''gemini-2.0-flash-exp''\<rparr>)],
     Raise e, Some vs)"
proof -
  have "initialize w None =
    ([Call (NewEmbeddings emb), Call (NewChroma vs), Call (AsRetriever rt),
      Call (NewChatModel \<lparr>llm_api_key = k, llm_model = ''gemini-2.0-flash-exp''\<rparr>)],
     Raise e, Some vs)"
    using assms by (simp add: initialize_def and_then_def step_defs Let_def)
  then show ?thesis by (rule run_script_Raise)
qed

text \<open>
  Claim C1: if any of the three client constructors raises, the session halts and an
  initialization error message is shown. The code does so for the embeddings client and
  for the vector store (the two lemmas above), not for the chat model: in the world
  \<open>bad_llm_world\<close>, where \<^verbatim>\<open>ChatGoogleGenerativeAI(...)\<close> raises, the run ends with the
  exception uncaught, after the four constructor calls, and no error banner is in its
  trace.
\<close>

theorem chat_model_failure_uncaught:
  "run_script bad_llm_world ''q'' None =
     (page_header @
      [Call (NewEmbeddings (embedding_function (vectorstore (chain_retriever demo_chain)))),
       Call (NewChroma (vectorstore (chain_retriever demo_chain))),
       Call (AsRetriever (chain_retriever demo_chain)),
       Call (NewChatModel (chain_llm demo_chain))],
      Raise (Exception ''invalid key''),
      Some (vectorstore (chain_retriever demo_chain))) \<and>
   trace_errors (fst (run_script bad_llm_world ''q'' None)) = []"
proof -
  have run: "run_script bad_llm_world ''q'' None =
     (page_header @
      [Call (NewEmbeddings (embedding_function (vectorstore (chain_retriever demo_chain)))),
       Call (NewChroma (vectorstore (chain_retriever demo_chain))),
       Call (AsRetriever (chain_retriever demo_chain)),
       Call (NewChatModel (chain_llm demo_chain))],
      Raise (Exception ''invalid key''),
      Some (vectorstore (chain_retriever demo_chain)))"
    using chat_model_failure_raises [of bad_llm_world "''secret''" _ _ _ "Exception ''invalid key''" "''q''"]
    by (simp add: bad_llm_world_def demo_world_def demo_chain_def secrets_getitem_def)
  show ?thesis
    unfolding run
    by (simp add: trace_errors_append trace_Cons trace_Nil header_plain)
qed

subsection \<open>The missing secret\<close>

text \<open>
  When a secrets file is found and has no entry \<^verbatim>\<open>GOOGLE_API_KEY\<close>, the lookup raises
  \<^verbatim>\<open>KeyError\<close>, which the handler at line 26 catches: the run shows the configuration
  error and stops. Its trace is the page header followed by that banner and holds no
  library call; the cache is left as it was.
\<close>

lemma absent_key_halts:
  assumes "secrets w = Inr entries"
    and "entries ''GOOGLE_API_KEY'' = None"
  shows "run_script w query c = (page_header @ [ErrorBox api_key_missing_text], Stop, c) \<and>
         trace_calls (fst (run_script w query c)) = []"
proof -
  have "initialize w c = ([ErrorBox api_key_missing_text], Stop, c)"
    using assms by (simp add: initialize_def and_then_def load_api_key_def secrets_getitem_def)
  then have "run_script w query c = (page_header @ [ErrorBox api_key_missing_text], Stop, c)"
    by (rule run_script_Stop)
  then show ?thesis
    by (simp add: trace_calls_append header_plain trace_Cons trace_Nil)
qed



subsection \<open>Processing a query\<close>

text \<open>
  Claim C3: for a non-empty query, when the call of the chain raises, the exception is
  caught where the call stands: the spinner block holds the call, an error banner with
  the exception's text and the hint to try again; the run goes on to the sidebar and
  the footer and ends at its last line (\<open>Next ()\<close>, neither stopped nor raised), with
  the text input rendered, so that a new query can be entered.
\<close>

theorem pipeline_error_is_inline:
  assumes "query \<noteq> []"
    and "initialize w c = (evs, Next chain, c')"
    and "qa_call w chain [(''query'', query)] = Inl e"
  shows "run_script w query c =
    (page_header @ evs @
     [query_input,
      Spinner ''Generating response...''
        [Call (Invoke chain [(''query'', query)]),
         ErrorBox (''An error occurred while processing the query: '' @ str_exc e),
         Write ''Please try again or check the Chroma database and API key.'']] @
     page_footer, Next (), c')"
  using assms by (simp add: run_script_initialized process_query_def)

theorem pipeline_error_is_inline_witness:
  "''boom'' \<noteq> [] \<and>
   initialize demo_world None =
     (demo_init_events, Next demo_chain, Some (vectorstore (chain_retriever demo_chain))) \<and>
   qa_call demo_world demo_chain [(''query'', ''boom'')] = Inl (Exception ''timeout'') \<and>
   run_script demo_world ''boom'' None =
    (page_header @ demo_init_events @
     [query_input,
      Spinner ''Generating response...''
        [Call (Invoke demo_chain [(''query'', ''boom'')]),
         ErrorBox (''An error occurred while processing the query: '' @ ''timeout''),
         Write ''Please try again or check the Chroma database and API key.'']] @
     page_footer, Next (), Some (vectorstore (chain_retriever demo_chain)))"
proof -
  have h1: "''boom'' \<noteq> []" by simp
  have h3: "qa_call demo_world demo_chain [(''query'', ''boom'')] = Inl (Exception ''timeout'')"
    by (simp add: demo_world_def)
  show ?thesis
    using h1 h3 demo_initialize pipeline_error_is_inline [OF h1 demo_initialize h3] by simp
qed

text \<open>
  Claim C4: every call of the chain that a run makes, whatever the query, goes to a
  chain whose retriever has the search type \<^verbatim>\<open>mmr\<close> and the search arguments
  \<^verbatim>\<open>k = 3\<close> and \<^verbatim>\<open>lambda_mult = 1\<close>; and every retriever the run asks
  the vector store for is configured so.
\<close>

theorem retriever_is_mmr_k3:
  "(Invoke chain inputs \<in> set (trace_calls (fst (run_script w query c))) \<longrightarrow>
      search_type (chain_retriever chain) = ''mmr'' \<and>
      search_kwargs (chain_retriever chain) = [(''k'', 3), (''lambda_mult'', 1)]) \<and>
   (AsRetriever rt \<in> set (trace_calls (fst (run_script w query c))) \<longrightarrow>
      search_type rt = ''mmr'' \<and> search_kwargs rt = [(''k'', 3), (''lambda_mult'', 1)])"
proof -
  obtain evs r c' where init: "initialize w c = (evs, r, c')"
    by (cases "initialize w c") auto
  note calls = run_script_calls [OF init, of query]
  have no_inv: "Invoke chain inputs \<notin> set (trace_calls evs)"
    using initialize_calls(1) [OF init] by (rule not_in_filtered)
  have one: "search_type (chain_retriever chain) = ''mmr'' \<and>
      search_kwargs (chain_retriever chain) = [(''k'', 3), (''lambda_mult'', 1)]"
    if "Invoke chain inputs \<in> set (trace_calls (fst (run_script w query c)))"
  proof (cases r)
    case (Next ch)
    with that calls no_inv have "ch = chain" by (auto split: if_splits)
    with Next init initialize_Next(3,4) [of w c evs chain c'] show ?thesis by simp
  next
    case Stop
    with that calls no_inv show ?thesis by simp
  next
    case (Raise e)
    with that calls no_inv show ?thesis by simp
  qed
  have two: "search_type rt = ''mmr'' \<and> search_kwargs rt = [(''k'', 3), (''lambda_mult'', 1)]"
    if "AsRetriever rt \<in> set (trace_calls (fst (run_script w query c)))"
  proof -
    from that calls have "AsRetriever rt \<in> set (trace_calls evs)"
      by (cases r) (auto split: if_splits)
    then show ?thesis by (rule initialize_calls(2) [OF init])
  qed
  from one two show ?thesis by blast
qed

theorem retriever_is_mmr_k3_witness:
  "Invoke demo_chain [(''query'', ''q'')] \<in> set (trace_calls (fst (run_script demo_world ''q'' None))) \<and>
   AsRetriever (chain_retriever demo_chain) \<in> set (trace_calls (fst (run_script demo_world ''q'' None))) \<and>
   search_type (chain_retriever demo_chain) = ''mmr'' \<and>
   search_kwargs (chain_retriever demo_chain) = [(''k'', 3), (''lambda_mult'', 1)]"
proof -
  have h1: "Invoke demo_chain [(''query'', ''q'')] \<in> set (trace_calls (fst (run_script demo_world ''q'' None)))"
    by (simp add: demo_calls)
  have h2: "AsRetriever (chain_retriever demo_chain) \<in> set (trace_calls (fst (run_script demo_world ''q'' None)))"
    by (simp add: demo_calls)
  show ?thesis
    using h1 h2 retriever_is_mmr_k3 [of demo_chain "[(''query'', ''q'')]" demo_world "''q''" None
        "chain_retriever demo_chain"]
    by blast
qed

text \<open>
  Claim C5: an empty query never triggers the call of the chain. No run with the empty
  query calls the chain; and a run that reaches the text input shows the page header,
  the input, the sidebar and the footer and nothing else: no answer, no sources, no
  error.
\<close>

theorem empty_query_is_noop:
  "filter is_Invoke (trace_calls (fst (run_script w [] c))) = [] \<and>
   (initialize w c = (evs, Next chain, c') \<longrightarrow>
      run_script w [] c = (page_header @ evs @ [query_input] @ page_footer, Next (), c') \<and>
      trace_ui (fst (run_script w [] c)) = page_header @ [query_input] @ page_footer)"
proof -
  obtain evs0 r c0 where init: "initialize w c = (evs0, r, c0)"
    by (cases "initialize w c") auto
  have a: "filter is_Invoke (trace_calls (fst (run_script w [] c))) = []"
    using run_script_calls [OF init, of "[]"] initialize_calls(1) [OF init]
    by (cases r) simp_all
  have b: "run_script w [] c = (page_header @ evs @ [query_input] @ page_footer, Next (), c') \<and>
      trace_ui (fst (run_script w [] c)) = page_header @ [query_input] @ page_footer"
    if h: "initialize w c = (evs, Next chain, c')"
  proof -
    have run: "run_script w [] c = (page_header @ evs @ [query_input] @ page_footer, Next (), c')"
      using run_script_initialized [OF h, of "[]"] by (simp add: process_query_def)
    have "trace_ui evs = []"
      using initialize_Next(1) [OF h] calls_plain(2) [of "trace_calls evs"] by simp
    with run show ?thesis
      by (simp add: trace_ui_append trace_Cons header_plain footer_plain input_plain)
  qed
  from a b show ?thesis by blast
qed

theorem empty_query_is_noop_witness:
  "filter is_Invoke (trace_calls (fst (run_script demo_world [] None))) = [] \<and>
   initialize demo_world None =
     (demo_init_events, Next demo_chain, Some (vectorstore (chain_retriever demo_chain))) \<and>
   run_script demo_world [] None =
     (page_header @ demo_init_events @ [query_input] @ page_footer, Next (),
      Some (vectorstore (chain_retriever demo_chain))) \<and>
   trace_ui (fst (run_script demo_world [] None)) = page_header @ [query_input] @ page_footer"
  using demo_initialize
    empty_query_is_noop [of demo_world None demo_init_events demo_chain
      "Some (vectorstore (chain_retriever demo_chain))"]
  by blast

text \<open>
  Claim C6: when the chain's response to a query holds no source document, the run
  shows the message \<^verbatim>\<open>No source documents found.\<close> after the answer, and no
  collapsible section anywhere on the page.
\<close>

theorem no_sources_message:
  assumes "query \<noteq> []"
    and "initialize w c = (evs, Next chain, c')"
    and "qa_call w chain [(''query'', query)] = Inr r"
    and "source_documents r = []"
  shows "run_script w query c =
    (page_header @ evs @
     [query_input,
      Spinner ''Generating response...''
        [Call (Invoke chain [(''query'', query)]),
         Subheader ''Answer'',
         Write (result r),
         Subheader ''Sources'',
         Write ''No source documents found.'']] @
     page_footer, Next (), c') \<and>
    trace_expanders (fst (run_script w query c)) = []"
proof -
  have run: "run_script w query c =
    (page_header @ evs @
     [query_input,
      Spinner ''Generating response...''
        [Call (Invoke chain [(''query'', query)]),
         Subheader ''Answer'',
         Write (result r),
         Subheader ''Sources'',
         Write ''No source documents found.'']] @
     page_footer, Next (), c')"
    using assms by (simp add: run_script_initialized process_query_def)
  show ?thesis
    unfolding run
    by (simp add: trace_expanders_append trace_Cons trace_Nil header_plain footer_plain
        input_plain init_events_plain(3) [OF assms(2)])
qed

theorem no_sources_message_witness:
  "''none'' \<noteq> [] \<and>
   qa_call demo_world demo_chain [(''query'', ''none'')] = Inr \<lparr>result = ''A'', source_documents = []\<rparr> \<and>
   source_documents \<lparr>result = ''A'', source_documents = []\<rparr> = [] \<and>
   run_script demo_world ''none'' None =
    (page_header @ demo_init_events @
     [query_input,
      Spinner ''Generating response...''
        [Call (Invoke demo_chain [(''query'', ''none'')]),
         Subheader ''Answer'',
         Write ''A'',
         Subheader ''Sources'',
         Write ''No source documents found.'']] @
     page_footer, Next (), Some (vectorstore (chain_retriever demo_chain))) \<and>
   trace_expanders (fst (run_script demo_world ''none'' None)) = []"
proof -
  have h1: "''none'' \<noteq> []" by simp
  have h3: "qa_call demo_world demo_chain [(''query'', ''none'')] =
      Inr \<lparr>result = ''A'', source_documents = []\<rparr>"
    by (simp add: demo_world_def)
  have h4: "source_documents \<lparr>result = ''A'', source_documents = []\<rparr> = []" by simp
  have concl: "run_script demo_world ''none'' None =
    (page_header @ demo_init_events @
     [query_input,
      Spinner ''Generating response...''
        [Call (Invoke demo_chain [(''query'', ''none'')]),
         Subheader ''Answer'',
         Write ''A'',
         Subheader ''Sources'',
         Write ''No source documents found.'']] @
     page_footer, Next (), Some (vectorstore (chain_retriever demo_chain))) \<and>
   trace_expanders (fst (run_script demo_world ''none'' None)) = []"
    by (rule no_sources_message [OF h1 demo_initialize h3 h4, unfolded response.select_convs])
  from h1 h3 h4 concl show ?thesis by blast
qed

text \<open>
  Claim C7: for every non-empty query the chain is called inside the spinner block
  \<^verbatim>\<open>Generating response...\<close>; when it returns, the block shows, in this order, the
  answer under its heading, the heading of the sources and then one collapsible section
  per retrieved chunk, in the order of the response, each with the chunk's metadata and
  a preview of its content cut at the fixed length of 200 characters.
\<close>

theorem results_in_order:
  assumes "query \<noteq> []"
    and "initialize w c = (evs, Next chain, c')"
  shows "\<exists>body.
    run_script w query c =
      (page_header @ evs @
       [query_input,
        Spinner ''Generating response...'' (Call (Invoke chain [(''query'', query)]) # body)] @
       page_footer, Next (), c') \<and>
    (\<forall>r. qa_call w chain [(''query'', query)] = Inr r \<longrightarrow>
       body =
         [Subheader ''Answer'', Write (result r), Subheader ''Sources''] @
         (if source_documents r = [] then [Write ''No source documents found.'']
          else map (\<lambda>doc. Expander ''Source Document''
                      [Write (''**Metadata**: '' @ py_str w (metadata doc)),
                       Write (''**Content Preview**: '' @ take 200 (page_content doc) @ ''...'')])
                 (source_documents r)))"
proof (cases "qa_call w chain [(''query'', query)]")
  case (Inl e)
  with assms show ?thesis by (simp add: run_script_initialized process_query_def)
next
  case (Inr r)
  have "map (show_source w) (source_documents r) =
        map (\<lambda>doc. Expander ''Source Document''
                      [Write (''**Metadata**: '' @ py_str w (metadata doc)),
                       Write (''**Content Preview**: '' @ take 200 (page_content doc) @ ''...'')])
            (source_documents r)"
    by (simp add: show_source_def)
  with Inr assms show ?thesis by (simp add: run_script_initialized process_query_def)
qed

theorem results_in_order_witness:
  "''q'' \<noteq> [] \<and>
   initialize demo_world None =
     (demo_init_events, Next demo_chain, Some (vectorstore (chain_retriever demo_chain))) \<and>
   qa_call demo_world demo_chain [(''query'', ''q'')] =
     Inr \<lparr>result = ''A'', source_documents = demo_docs\<rparr> \<and>
   run_script demo_world ''q'' None =
     (page_header @ demo_init_events @
      [query_input,
       Spinner ''Generating response...''
         [Call (Invoke demo_chain [(''query'', ''q'')]),
          Subheader ''Answer'',
          Write ''A'',
          Subheader ''Sources'',
          Expander ''Source Document''
            [Write ''**Metadata**: page=1'', Write ''**Content Preview**: doc1 text...''],
          Expander ''Source Document''
            [Write ''**Metadata**: '',
             Write (''**Content Preview**: '' @ replicate 200 CHR ''x'' @ ''...'')]]] @
      page_footer, Next (), Some (vectorstore (chain_retriever demo_chain)))"
proof -
  have h1: "''q'' \<noteq> []" by simp
  have h3: "qa_call demo_world demo_chain [(''query'', ''q'')] =
      Inr \<lparr>result = ''A'', source_documents = demo_docs\<rparr>"
    by (simp add: demo_world_def)
  obtain body where
    run: "run_script demo_world ''q'' None =
      (page_header @ demo_init_events @
       [query_input,
        Spinner ''Generating response...'' (Call (Invoke demo_chain [(''query'', ''q'')]) # body)] @
       page_footer, Next (), Some (vectorstore (chain_retriever demo_chain)))"
    and body: "\<forall>r. qa_call demo_world demo_chain [(''query'', ''q'')] = Inr r \<longrightarrow>
       body =
         [Subheader ''Answer'', Write (result r), Subheader ''Sources''] @
         (if source_documents r = [] then [Write ''No source documents found.'']
          else map (\<lambda>doc. Expander ''Source Document''
                      [Write (''**Metadata**: '' @ py_str demo_world (metadata doc)),
                       Write (''**Content Preview**: '' @ take 200 (page_content doc) @ ''...'')])
                 (source_documents r))"
    using results_in_order [OF h1 demo_initialize] by blast
  have "body =
     [Subheader ''Answer'', Write ''A'', Subheader ''Sources'',
      Expander ''Source Document''
        [Write ''**Metadata**: page=1'', Write ''**Content Preview**: doc1 text...''],
      Expander ''Source Document''
        [Write ''**Metadata**: '',
         Write (''**Content Preview**: '' @ replicate 200 CHR ''x'' @ ''...'')]]"
    using body h3 by (simp add: demo_docs_def demo_world_def)
  with run h1 h3 demo_initialize show ?thesis by simp
qed

text \<open>
  Claim C8: the query reaches the chain exactly as entered. A run with a non-empty
  query calls the chain exactly once, on the input \<^verbatim>\<open>{"query": query}\<close> with the
  very string the text input returned, whatever its characters and its length.
\<close>

theorem query_passed_verbatim:
  assumes "query \<noteq> []"
    and "initialize w c = (evs, Next chain, c')"
  shows "filter is_Invoke (trace_calls (fst (run_script w query c))) =
           [Invoke chain [(''query'', query)]]"
  using assms run_script_calls [OF assms(2), of query] initialize_calls(1) [OF assms(2)]
  by simp

theorem query_passed_verbatim_witness:
  "''  <b>any; text</b> 2024?  '' \<noteq> [] \<and>
   initialize demo_world None =
     (demo_init_events, Next demo_chain, Some (vectorstore (chain_retriever demo_chain))) \<and>
   filter is_Invoke (trace_calls (fst (run_script demo_world ''  <b>any; text</b> 2024?  '' None))) =
     [Invoke demo_chain [(''query'', ''  <b>any; text</b> 2024?  '')]]"
proof -
  have h1: "''  <b>any; text</b> 2024?  '' \<noteq> []" by simp
  from h1 demo_initialize query_passed_verbatim [OF h1 demo_initialize]
  show ?thesis by blast
qed

text \<open>
  Claim C9: only the empty string is a no-op. For every query, a run that reaches the
  text input calls the chain not at all when the query is the empty string, and
  otherwise exactly once, with that very string: so a query made of whitespace only (a
  blank, a tab and a blank, ...) is not empty under the guard and reaches the chain
  unchanged. In particular the run makes no call of the chain exactly when the query is
  empty, and the query of one blank is passed to the chain as that blank.
\<close>

theorem only_empty_query_is_noop:
  assumes "initialize w c = (evs, Next chain, c')"
  shows "filter is_Invoke (trace_calls (fst (run_script w query c))) =
           (if query = [] then [] else [Invoke chain [(''query'', query)]]) \<and>
         (filter is_Invoke (trace_calls (fst (run_script w query c))) = []) = (query = []) \<and>
         filter is_Invoke (trace_calls (fst (run_script w '' '' c))) =
           [Invoke chain [(''query'', '' '')]]"
  using run_script_calls [OF assms, of query] run_script_calls [OF assms, of "'' ''"]
    initialize_calls(1) [OF assms]
  by simp

theorem only_empty_query_is_noop_witness:
  "initialize demo_world None =
     (demo_init_events, Next demo_chain, Some (vectorstore (chain_retriever demo_chain))) \<and>
   filter is_Invoke (trace_calls (fst (run_script demo_world [CHR 0x09, CHR '' ''] None))) =
     [Invoke demo_chain [(''query'', [CHR 0x09, CHR '' ''])]] \<and>
   filter is_Invoke (trace_calls (fst (run_script demo_world [CHR 0x09, CHR '' ''] None))) \<noteq> [] \<and>
   filter is_Invoke (trace_calls (fst (run_script demo_world '' '' None))) =
     [Invoke demo_chain [(''query'', '' '')]]"
  using demo_initialize only_empty_query_is_noop [OF demo_initialize, of "[CHR 0x09, CHR '' '']"]
  by simp

text \<open>
  Claim C10: the collapsible sections of a run are those of the response's chunks, and
  the preview in each is the first 200 characters of the chunk's content followed by
  \<^verbatim>\<open>...\<close>, whatever the content's length: a content of at most 200 characters
  is shown in full, followed by the three dots all the same.
\<close>

theorem preview_ellipsis_unconditional:
  assumes "query \<noteq> []"
    and "initialize w c = (evs, Next chain, c')"
    and "qa_call w chain [(''query'', query)] = Inr r"
  shows "trace_expanders (fst (run_script w query c)) =
           map (\<lambda>doc. Expander ''Source Document''
                  [Write (''**Metadata**: '' @ py_str w (metadata doc)),
                   Write (''**Content Preview**: '' @ take 200 (page_content doc) @ ''...'')])
               (source_documents r) \<and>
         trace_expanders (fst (run_script w query c)) =
           map (\<lambda>doc. Expander ''Source Document''
                  [Write (''**Metadata**: '' @ py_str w (metadata doc)),
                   Write (''**Content Preview**: '' @
                          (if length (page_content doc) \<le> 200 then page_content doc
                           else take 200 (page_content doc)) @ ''...'')])
               (source_documents r)"
proof -
  have shown: "map (show_source w) (source_documents r) =
        map (\<lambda>doc. Expander ''Source Document''
                      [Write (''**Metadata**: '' @ py_str w (metadata doc)),
                       Write (''**Content Preview**: '' @ take 200 (page_content doc) @ ''...'')])
            (source_documents r)"
    by (simp add: show_source_def)
  have "trace_expanders (process_query w chain query) = map (show_source w) (source_documents r)"
    using assms(1,3)
    by (simp add: process_query_def trace_Cons trace_Nil sources_expanders
        trace_expanders_def [symmetric])
  then have "trace_expanders (fst (run_script w query c)) =
      map (show_source w) (source_documents r)"
    by (simp add: run_script_initialized [OF assms(2)] trace_expanders_append trace_Cons
        header_plain footer_plain input_plain init_events_plain(3) [OF assms(2)])
  with shown have first: "trace_expanders (fst (run_script w query c)) =
           map (\<lambda>doc. Expander ''Source Document''
                  [Write (''**Metadata**: '' @ py_str w (metadata doc)),
                   Write (''**Content Preview**: '' @ take 200 (page_content doc) @ ''...'')])
               (source_documents r)"
    by simp
  have "take 200 (page_content doc) =
        (if length (page_content doc) \<le> 200 then page_content doc
         else take 200 (page_content doc))" for doc :: document
    by simp
  with first show ?thesis by simp
qed

theorem preview_ellipsis_unconditional_witness:
  "''q'' \<noteq> [] \<and>
   initialize demo_world None =
     (demo_init_events, Next demo_chain, Some (vectorstore (chain_retriever demo_chain))) \<and>
   qa_call demo_world demo_chain [(''query'', ''q'')] =
     Inr \<lparr>result = ''A'', source_documents = demo_docs\<rparr> \<and>
   trace_expanders (fst (run_script demo_world ''q'' None)) =
     [Expander ''Source Document''
        [Write ''**Metadata**: page=1'', Write ''**Content Preview**: doc1 text...''],
      Expander ''Source Document''
        [Write ''**Metadata**: '',
         Write (''**Content Preview**: '' @ replicate 200 CHR ''x'' @ ''...'')]]"
proof -
  have h1: "''q'' \<noteq> []" by simp
  have h3: "qa_call demo_world demo_chain [(''query'', ''q'')] =
      Inr \<lparr>result = ''A'', source_documents = demo_docs\<rparr>"
    by (simp add: demo_world_def)
  have "trace_expanders (fst (run_script demo_world ''q'' None)) =
     [Expander ''Source Document''
        [Write ''**Metadata**: page=1'', Write ''**Content Preview**: doc1 text...''],
      Expander ''Source Document''
        [Write ''**Metadata**: '',
         Write (''**Content Preview**: '' @ replicate 200 CHR ''x'' @ ''...'')]]"
    using preview_ellipsis_unconditional [OF h1 demo_initialize h3]
    by (simp add: demo_docs_def demo_world_def)
  with h1 h3 demo_initialize show ?thesis by blast
qed

end
